theory Spec2Isabelle
  imports Main "HOL-Library.Sublist" "HOL-Library.FSet"
begin

section \<open>Shallow embedding of real\_estate\_scraper.py\<close>

text \<open>
  The scraper fetches search pages, follows the listing links of each page, extracts one
  record per listing page and keeps the records that pass the filters. The embedding
  follows the source function by function. What the source gets from outside (the
  network, the HTML parser, the clock) is a parameter of the model:
  \<^item> a parsed document is the list of its elements in document order, each with its tag
    name, its classes, its \<open>href\<close> attribute (if any) and its text;
  \<^item> \<open>requests.get\<close>, \<open>raise_for_status\<close> and \<open>BeautifulSoup(...)\<close> together are one
    function from the URL to either an exception or a parsed document;
  \<^item> Python strings are modelled as ASCII texts (\<open>string\<close>).
  Exceptions are values of type \<open>error + 'a\<close>; logging and \<open>time.sleep\<close> are left out.
\<close>

subsection \<open>Exceptions\<close>

datatype error = RequestException | AttributeError | KeyError | TypeError

definition try_bind :: "error + 'a \<Rightarrow> ('a \<Rightarrow> error + 'b) \<Rightarrow> error + 'b" where
  "try_bind m k = (case m of Inl e \<Rightarrow> Inl e | Inr x \<Rightarrow> k x)"

subsection \<open>String operations of Python used by the source\<close>

text \<open>\<open>str.lower()\<close> on ASCII text: the 26 capital letters are mapped, the rest is kept.\<close>

definition lower_char :: "char \<Rightarrow> char" where
  "lower_char c =
     (case map_of (zip ''ABCDEFGHIJKLMNOPQRSTUVWXYZ'' ''abcdefghijklmnopqrstuvwxyz'') c of
        None \<Rightarrow> c
      | Some l \<Rightarrow> l)"

definition lower :: "string \<Rightarrow> string" where
  "lower s = map lower_char s"

text \<open>\<open>str.strip()\<close> without argument removes leading and trailing whitespace.\<close>

definition is_space :: "char \<Rightarrow> bool" where
  "is_space c \<longleftrightarrow>
     c \<in> set [CHR 0x09, CHR 0x0A, CHR 0x0B, CHR 0x0C, CHR 0x0D,
              CHR 0x1C, CHR 0x1D, CHR 0x1E, CHR 0x1F, CHR 0x20]"

definition strip :: "string \<Rightarrow> string" where
  "strip s = rev (dropWhile is_space (rev (dropWhile is_space s)))"

text \<open>\<open>needle in hay\<close> on two strings: the substring test.\<close>

fun contains :: "string \<Rightarrow> string \<Rightarrow> bool" where
  "contains [] needle = (needle = [])"
| "contains (c # cs) needle = (prefix needle (c # cs) \<or> contains cs needle)"

text \<open>\<open>any(indicator in text for indicator in indicators)\<close>\<close>

definition any_in :: "string list \<Rightarrow> string \<Rightarrow> bool" where
  "any_in indicators text = list_ex (\<lambda>indicator. contains text indicator) indicators"

subsection \<open>Parsed documents\<close>

record element =
  el_name :: string
  el_class :: "string list"
  el_href :: "string option"
  el_text :: string

type_synonym soup = "element list"

definition el_matches :: "string \<Rightarrow> string \<Rightarrow> element \<Rightarrow> bool" where
  "el_matches name cls e \<longleftrightarrow> el_name e = name \<and> cls \<in> set (el_class e)"

text \<open>\<open>soup.find(name, class_=cls)\<close>: the first matching element, or \<open>None\<close>.\<close>

definition soup_find :: "soup \<Rightarrow> string \<Rightarrow> string \<Rightarrow> element option" where
  "soup_find doc name cls = List.find (el_matches name cls) doc"

text \<open>\<open>soup.find_all(name, class_=cls)\<close>: all matching elements in document order.\<close>

definition soup_find_all :: "soup \<Rightarrow> string \<Rightarrow> string \<Rightarrow> element list" where
  "soup_find_all doc name cls = filter (el_matches name cls) doc"

subsection \<open>Attribute classifiers\<close>

definition accessibility_indicators :: "string list" where
  "accessibility_indicators =
     [''wheelchair accessible'', ''ada compliant'', ''handicap accessible'',
      ''accessible unit'', ''accessibility features'']"

definition section8_indicators :: "string list" where
  "section8_indicators =
     [''section 8'', ''section 8 accepted'', ''section 8 welcome'',
      ''housing choice voucher'', ''hcv welcome'']"

text \<open>
  \<^verbatim>\<open>description = soup.find('div', class_='description')
if description:
    text = description.text.lower()
    return any(indicator in text for indicator in accessibility_indicators)
return False\<close>
  A \<open>Tag\<close> of BeautifulSoup is always truthy, so \<open>if description\<close> tests for \<open>None\<close>.
\<close>

definition is_wheelchair_accessible :: "soup \<Rightarrow> bool" where
  "is_wheelchair_accessible doc =
     (case soup_find doc ''div'' ''description'' of
        Some d \<Rightarrow> any_in accessibility_indicators (lower (el_text d))
      | None \<Rightarrow> False)"

definition accepts_section_8 :: "soup \<Rightarrow> bool" where
  "accepts_section_8 doc =
     (case soup_find doc ''div'' ''description'' of
        Some d \<Rightarrow> any_in section8_indicators (lower (el_text d))
      | None \<Rightarrow> False)"

subsection \<open>Python values held by the filters\<close>

text \<open>
  A filter value is whatever the caller passes to \<open>set_filters\<close>. The model covers
  \<open>None\<close>, booleans, integers, strings and four kinds of collections of scalars (a
  scalar is an integer or a string): list, set, tuple and the keys view of a dict.
\<close>

datatype scalar = SInt int | SStr string

datatype pyval =
    VNone
  | VBool bool
  | VInt int
  | VStr string
  | VList "scalar list"
  | VSet "scalar fset"
  | VTuple "scalar list"
  | VDictKeys "scalar list"

definition digit_char :: "nat \<Rightarrow> char" where
  "digit_char d = ''0123456789'' ! d"

fun str_nat :: "nat \<Rightarrow> string" where
  "str_nat n = (if n < 10 then [digit_char n] else str_nat (n div 10) @ [digit_char (n mod 10)])"

declare str_nat.simps [simp del]

text \<open>\<open>str(x)\<close> of a scalar.\<close>

fun str :: "scalar \<Rightarrow> string" where
  "str (SStr s) = s"
| "str (SInt i) = (if i < 0 then CHR ''-'' # str_nat (nat (- i)) else str_nat (nat i))"

text \<open>Truth value of a filter value, as \<open>if\<close>, \<open>and\<close> and \<open>or\<close> take it.\<close>

fun truthy :: "pyval \<Rightarrow> bool" where
  "truthy VNone = False"
| "truthy (VBool b) = b"
| "truthy (VInt i) = (i \<noteq> 0)"
| "truthy (VStr s) = (s \<noteq> [])"
| "truthy (VList xs) = (xs \<noteq> [])"
| "truthy (VSet S) = (S \<noteq> {||})"
| "truthy (VTuple xs) = (xs \<noteq> [])"
| "truthy (VDictKeys xs) = (xs \<noteq> [])"

text \<open>
  \<open>z in v\<close> for a string \<open>z\<close>: membership in a collection, the substring test on a
  string, and \<open>TypeError\<close> on a value that is not iterable.
\<close>

fun py_in :: "string \<Rightarrow> pyval \<Rightarrow> error + bool" where
  "py_in z (VList xs) = Inr (SStr z \<in> set xs)"
| "py_in z (VSet S) = Inr (SStr z |\<in>| S)"
| "py_in z (VTuple xs) = Inr (SStr z \<in> set xs)"
| "py_in z (VDictKeys xs) = Inr (SStr z \<in> set xs)"
| "py_in z (VStr s) = Inr (contains s z)"
| "py_in z VNone = Inl TypeError"
| "py_in z (VBool b) = Inl TypeError"
| "py_in z (VInt i) = Inl TypeError"

subsection \<open>Filters\<close>

text \<open>\<open>self.filters\<close> is a dict from filter names to values.\<close>

type_synonym filters = "string \<rightharpoonup> pyval"

definition dict_get :: "filters \<Rightarrow> string \<Rightarrow> error + pyval" where
  "dict_get fs key = (case fs key of None \<Rightarrow> Inl KeyError | Some v \<Rightarrow> Inr v)"

text \<open>The dict built by \<open>__init__\<close>.\<close>

definition init_filters :: filters where
  "init_filters = map_of
     [(''min_price'', VNone),
      (''max_price'', VNone),
      (''min_bedrooms'', VNone),
      (''max_bedrooms'', VNone),
      (''property_type'', VNone),
      (''zip_codes'', VSet {||}),
      (''wheelchair_accessible'', VBool False),
      (''section_8_accepted'', VBool False),
      (''min_sqft'', VNone),
      (''max_sqft'', VNone)]"

text \<open>\<open>isinstance(value, (list, set))\<close>\<close>

fun is_list_or_set :: "pyval \<Rightarrow> bool" where
  "is_list_or_set (VList xs) = True"
| "is_list_or_set (VSet S) = True"
| "is_list_or_set v = False"

text \<open>\<open>set(str(zip_code) for zip_code in value)\<close> on a list or a set.\<close>

fun zip_code_set :: "pyval \<Rightarrow> pyval" where
  "zip_code_set (VList xs) = VSet (fset_of_list (map (\<lambda>zip_code. SStr (str zip_code)) xs))"
| "zip_code_set (VSet S) = VSet ((\<lambda>zip_code. SStr (str zip_code)) |`| S)"
| "zip_code_set v = v"

text \<open>
  \<^verbatim>\<open>for key, value in kwargs.items():
    if key in self.filters:
        if key == 'zip_codes' and isinstance(value, (list, set)):
            self.filters[key] = set(str(zip_code) for zip_code in value)
        else:
            self.filters[key] = value
    else:
        logger.warning(...)\<close>
  The keyword arguments are the list of their (name, value) pairs in call order.
\<close>

fun set_filters :: "filters \<Rightarrow> (string \<times> pyval) list \<Rightarrow> filters" where
  "set_filters fs [] = fs"
| "set_filters fs ((key, v) # kwargs) =
     set_filters
       (if fs key \<noteq> None then
          (if key = ''zip_codes'' \<and> is_list_or_set v then fs(key \<mapsto> zip_code_set v)
           else fs(key \<mapsto> v))
        else fs)
       kwargs"

subsection \<open>Extraction of one listing\<close>

text \<open>The dict \<open>listing_data\<close> has a fixed set of keys: a record.\<close>

record listing =
  title :: string
  price :: string
  bedrooms :: string
  bathrooms :: string
  sqft :: string
  address :: string
  zip_code :: string
  wheelchair_accessible :: bool
  section_8_accepted :: bool
  description :: string
  url :: string

text \<open>
  \<open>re.search(r'\b(\d{5})\b', text)\<close>: the leftmost run of exactly five digits that has
  no word character (letter, digit, underscore) directly before or after it. The
  argument \<open>prev\<close> tells whether the character before the current position is a word
  character.
\<close>

definition is_digit :: "char \<Rightarrow> bool" where
  "is_digit c \<longleftrightarrow> c \<in> set ''0123456789''"

definition is_word :: "char \<Rightarrow> bool" where
  "is_word c \<longleftrightarrow>
     c \<in> set ''abcdefghijklmnopqrstuvwxyzABCDEFGHIJKLMNOPQRSTUVWXYZ0123456789_''"

definition five_digits_here :: "string \<Rightarrow> bool" where
  "five_digits_here s \<longleftrightarrow>
     5 \<le> length s \<and> list_all is_digit (take 5 s) \<and>
     (case drop 5 s of [] \<Rightarrow> True | c # _ \<Rightarrow> \<not> is_word c)"

fun re_search_zip :: "bool \<Rightarrow> string \<Rightarrow> string option" where
  "re_search_zip prev [] = None"
| "re_search_zip prev (c # cs) =
     (if \<not> prev \<and> five_digits_here (c # cs) then Some (take 5 (c # cs))
      else re_search_zip (is_word c) cs)"

text \<open>
  \<^verbatim>\<open>address = soup.find('div', class_='address')
if address:
    text = address.text.strip()
    zip_match = re.search(r'\b(\d{5})\b', text)
    if zip_match:
        return zip_match.group(1)
return ""\<close>
\<close>

definition extract_zip_code :: "soup \<Rightarrow> string" where
  "extract_zip_code doc =
     (case soup_find doc ''div'' ''address'' of
        Some a \<Rightarrow>
          (case re_search_zip False (strip (el_text a)) of
             Some zip_match \<Rightarrow> zip_match
           | None \<Rightarrow> [])
      | None \<Rightarrow> [])"

text \<open>
  \<open>soup.find(name, class_=cls).text.strip()\<close>: when \<open>find\<close> returns \<open>None\<close>, reading
  \<open>.text\<close> raises \<open>AttributeError\<close>.
\<close>

definition field_text :: "soup \<Rightarrow> string \<Rightarrow> string \<Rightarrow> error + string" where
  "field_text doc name cls =
     (case soup_find doc name cls of
        None \<Rightarrow> Inl AttributeError
      | Some e \<Rightarrow> Inr (strip (el_text e)))"

text \<open>
  Lines 140 to 152 of the source: the dict literal, whose entries are evaluated in the
  order they are written.
\<close>

definition listing_data :: "soup \<Rightarrow> string \<Rightarrow> error + listing" where
  "listing_data doc u =
     try_bind (field_text doc ''h1'' ''listing-title'') (\<lambda>v_title.
     try_bind (field_text doc ''div'' ''price'') (\<lambda>v_price.
     try_bind (field_text doc ''span'' ''bedrooms'') (\<lambda>v_bedrooms.
     try_bind (field_text doc ''span'' ''bathrooms'') (\<lambda>v_bathrooms.
     try_bind (field_text doc ''span'' ''sqft'') (\<lambda>v_sqft.
     try_bind (field_text doc ''div'' ''address'') (\<lambda>v_address.
     try_bind (field_text doc ''div'' ''description'') (\<lambda>v_description.
       Inr \<lparr> title = v_title,
             price = v_price,
             bedrooms = v_bedrooms,
             bathrooms = v_bathrooms,
             sqft = v_sqft,
             address = v_address,
             zip_code = extract_zip_code doc,
             wheelchair_accessible = is_wheelchair_accessible doc,
             section_8_accepted = accepts_section_8 doc,
             description = v_description,
             url = u \<rparr>)))))))"

text \<open>
  Lines 135 and 136: the condition
  \<^verbatim>\<open>(self.filters['wheelchair_accessible'] and not self.is_wheelchair_accessible(soup)) or
(self.filters['section_8_accepted'] and not self.accepts_section_8(soup))\<close>
\<close>

definition flags_reject :: "filters \<Rightarrow> soup \<Rightarrow> error + bool" where
  "flags_reject fs doc =
     try_bind (dict_get fs ''wheelchair_accessible'') (\<lambda>w.
       if truthy w \<and> \<not> is_wheelchair_accessible doc then Inr True
       else try_bind (dict_get fs ''section_8_accepted'') (\<lambda>s.
              Inr (truthy s \<and> \<not> accepts_section_8 doc)))"

text \<open>
  Line 155: the condition
  \<^verbatim>\<open>self.filters['zip_codes'] and listing_data['zip_code'] not in self.filters['zip_codes']\<close>
\<close>

definition zip_reject :: "filters \<Rightarrow> listing \<Rightarrow> error + bool" where
  "zip_reject fs ld =
     try_bind (dict_get fs ''zip_codes'') (\<lambda>z.
       if truthy z then try_bind (py_in (zip_code ld) z) (\<lambda>found. Inr (\<not> found))
       else Inr False)"

text \<open>
  The body of the \<open>try\<close> of \<open>scrape_listing\<close>: \<open>Inl\<close> is an exception raised in it,
  \<open>Inr None\<close> a \<open>return None\<close> and \<open>Inr (Some ld)\<close> the \<open>return listing_data\<close>.
\<close>

definition scrape_listing_try ::
  "filters \<Rightarrow> (string \<Rightarrow> error + soup) \<Rightarrow> string \<Rightarrow> error + listing option" where
  "scrape_listing_try fs fetch u =
     try_bind (fetch u) (\<lambda>doc.
     try_bind (flags_reject fs doc) (\<lambda>rejected.
       if rejected then Inr None
       else
         try_bind (listing_data doc u) (\<lambda>ld.
         try_bind (zip_reject fs ld) (\<lambda>outside.
           if outside then Inr None else Inr (Some ld)))))"

text \<open>\<open>except Exception\<close>: the error is logged and \<open>None\<close> is returned.\<close>

definition scrape_listing ::
  "filters \<Rightarrow> (string \<Rightarrow> error + soup) \<Rightarrow> string \<Rightarrow> listing option" where
  "scrape_listing fs fetch u =
     (case scrape_listing_try fs fetch u of
        Inl e \<Rightarrow> None
      | Inr r \<Rightarrow> r)"

subsection \<open>The pagination driver\<close>

text \<open>
  The state of a run: the list \<open>all_listings\<close>, and the pages the run has asked for so
  far, in order (one event for each search page and each listing page it tried to get).
\<close>

datatype event = SearchPage int | ListingPage string

record run_state =
  all_listings :: "listing list"
  events :: "event list"

definition log_event :: "event \<Rightarrow> run_state \<Rightarrow> run_state" where
  "log_event ev st = st\<lparr>events := events st @ [ev]\<rparr>"

text \<open>
  \<open>[a['href'] for a in soup.find_all('a', class_='listing-link')]\<close>: an anchor without
  \<open>href\<close> raises \<open>KeyError\<close>.
\<close>

fun hrefs :: "element list \<Rightarrow> error + string list" where
  "hrefs [] = Inr []"
| "hrefs (a # as) =
     (case el_href a of
        None \<Rightarrow> Inl KeyError
      | Some h \<Rightarrow> try_bind (hrefs as) (\<lambda>hs. Inr (h # hs)))"

definition listing_urls :: "soup \<Rightarrow> error + string list" where
  "listing_urls doc = hrefs (soup_find_all doc ''a'' ''listing-link'')"

text \<open>
  Lines 183 to 190: building the search URL of a page, getting and parsing it, and
  collecting its links. The first four steps (\<open>build_search_url\<close>, \<open>requests.get\<close>,
  \<open>raise_for_status\<close>, \<open>BeautifulSoup\<close>) are the parameter \<open>search\<close>, a function of the
  page number.
\<close>

definition page_urls :: "(int \<Rightarrow> error + soup) \<Rightarrow> int \<Rightarrow> error + string list" where
  "page_urls search page = try_bind (search page) listing_urls"

text \<open>
  \<^verbatim>\<open>for url in listing_urls:
    listing_data = self.scrape_listing(url)
    if listing_data:
        all_listings.append(listing_data)\<close>
  The dict \<open>listing_data\<close> is never empty, so \<open>if listing_data\<close> tests for \<open>None\<close>.
\<close>

fun listing_loop ::
  "filters \<Rightarrow> (string \<Rightarrow> error + soup) \<Rightarrow> string list \<Rightarrow> run_state \<Rightarrow> run_state" where
  "listing_loop fs fetch [] st = st"
| "listing_loop fs fetch (u # us) st =
     listing_loop fs fetch us
       (case scrape_listing fs fetch u of
          None \<Rightarrow> log_event (ListingPage u) st
        | Some ld \<Rightarrow> (log_event (ListingPage u) st)\<lparr>all_listings := all_listings st @ [ld]\<rparr>)"

text \<open>
  The loop over the pages. An exception in the \<open>try\<close> of a page ends the loop
  (\<open>break\<close>); \<open>scrape_listing\<close> raises nothing, so only lines 183 to 190 can raise.
\<close>

fun page_loop ::
  "filters \<Rightarrow> (int \<Rightarrow> error + soup) \<Rightarrow> (string \<Rightarrow> error + soup) \<Rightarrow> int list \<Rightarrow>
   run_state \<Rightarrow> run_state" where
  "page_loop fs search fetch [] st = st"
| "page_loop fs search fetch (page # pages) st =
     (case page_urls search page of
        Inl e \<Rightarrow> log_event (SearchPage page) st
      | Inr us \<Rightarrow>
          page_loop fs search fetch pages
            (listing_loop fs fetch us (log_event (SearchPage page) st)))"

text \<open>
  \<open>scrape_listings(max_pages)\<close>: \<open>range(1, max_pages + 1)\<close> is \<open>[1..max_pages]\<close>. The
  source returns \<open>all_listings\<close>; the model returns the final state, which holds it.
\<close>

definition scrape_listings ::
  "filters \<Rightarrow> (int \<Rightarrow> error + soup) \<Rightarrow> (string \<Rightarrow> error + soup) \<Rightarrow> int \<Rightarrow> run_state" where
  "scrape_listings fs search fetch max_pages =
     page_loop fs search fetch [1..max_pages] \<lparr>all_listings = [], events = []\<rparr>"

subsection \<open>Saving the results\<close>

text \<open>The reading of the clock, \<open>datetime.now()\<close>.\<close>

record datetime =
  year :: nat
  month :: nat
  day :: nat
  hour :: nat
  minute :: nat
  second :: nat
  microsecond :: nat

definition valid_datetime :: "datetime \<Rightarrow> bool" where
  "valid_datetime t \<longleftrightarrow>
     1000 \<le> year t \<and> year t \<le> 9999 \<and> 1 \<le> month t \<and> month t \<le> 12 \<and>
     1 \<le> day t \<and> day t \<le> 31 \<and> hour t < 24 \<and> minute t < 60 \<and> second t < 60 \<and>
     microsecond t < 1000000"

definition digits2 :: "nat \<Rightarrow> string" where
  "digits2 n = [digit_char (n div 10 mod 10), digit_char (n mod 10)]"

definition digits4 :: "nat \<Rightarrow> string" where
  "digits4 n = digits2 (n div 100) @ digits2 (n mod 100)"

text \<open>\<open>strftime('%Y%m%d_%H%M%S')\<close>: every field zero-padded, the microseconds left out.\<close>

definition strftime :: "datetime \<Rightarrow> string" where
  "strftime t =
     digits4 (year t) @ digits2 (month t) @ digits2 (day t) @ ''_'' @
     digits2 (hour t) @ digits2 (minute t) @ digits2 (second t)"

definition results_dir :: string where
  "results_dir = ''scraping_results''"

text \<open>
  \<^verbatim>\<open>if not listings:
    logger.warning("No listings to save")
    return
df = pd.DataFrame(listings)
timestamp = datetime.now().strftime('%Y%m%d_%H%M%S')
filename = f"{self.results_dir}/miami_listings_{timestamp}.csv"
df.to_csv(filename, index=False)\<close>
  The result is the file written: its name and its rows, or \<open>None\<close> when nothing is
  written.
\<close>

definition save_results :: "listing list \<Rightarrow> datetime \<Rightarrow> (string \<times> listing list) option" where
  "save_results listings now =
     (if listings = [] then None
      else Some (results_dir @ ''/miami_listings_'' @ strftime now @ ''.csv'', listings))"

subsection \<open>The entry point\<close>

definition MIAMI_ZIP_CODES :: "(string \<times> string) list" where
  "MIAMI_ZIP_CODES =
     [(''33125'', ''Little Havana''),
      (''33127'', ''Design District/Midtown''),
      (''33128'', ''Downtown Miami''),
      (''33130'', ''Brickell''),
      (''33131'', ''Brickell/Downtown''),
      (''33132'', ''Downtown Miami/Port of Miami''),
      (''33133'', ''Coconut Grove''),
      (''33134'', ''Coral Gables''),
      (''33135'', ''Little Havana/West Miami''),
      (''33136'', ''Overtown/Health District''),
      (''33137'', ''Design District/Upper Eastside''),
      (''33138'', ''Upper Eastside/Miami Shores'')]"

text \<open>The keyword arguments of the call of \<open>set_filters\<close> in \<open>main\<close>.\<close>

definition main_kwargs :: "(string \<times> pyval) list" where
  "main_kwargs =
     [(''min_price'', VInt 1000),
      (''max_price'', VInt 3000),
      (''min_bedrooms'', VInt 1),
      (''max_bedrooms'', VInt 3),
      (''property_type'', VStr ''apartment''),
      (''zip_codes'', VDictKeys (map (\<lambda>(k, v). SStr k) MIAMI_ZIP_CODES)),
      (''wheelchair_accessible'', VBool True),
      (''section_8_accepted'', VBool True),
      (''min_sqft'', VInt 600),
      (''max_sqft'', VInt 1500)]"

definition main_filters :: filters where
  "main_filters = set_filters init_filters main_kwargs"

text \<open>
  \<open>main\<close>: the listings found in ten pages are passed to \<open>save_results\<close>. The result is
  the final state of the run and what was saved.
\<close>

definition main ::
  "(int \<Rightarrow> error + soup) \<Rightarrow> (string \<Rightarrow> error + soup) \<Rightarrow> datetime \<Rightarrow>
   run_state \<times> (string \<times> listing list) option" where
  "main search fetch now =
     (let st = scrape_listings main_filters search fetch 10
      in (st, save_results (all_listings st) now))"

section \<open>Example documents and runs\<close>

text \<open>Concrete inputs on which the properties below are evaluated.\<close>

definition tag :: "string \<Rightarrow> string \<Rightarrow> string \<Rightarrow> element" where
  "tag name cls txt = \<lparr>el_name = name, el_class = [cls], el_href = None, el_text = txt\<rparr>"

definition link :: "string \<Rightarrow> element" where
  "link h = \<lparr>el_name = ''a'', el_class = [''listing-link''], el_href = Some h, el_text = []\<rparr>"

text \<open>A listing page without a description, and the same page with one.\<close>

definition ex_page_no_description :: "string \<Rightarrow> soup" where
  "ex_page_no_description addr =
     [tag ''h1'' ''listing-title'' ''Sunny flat'',
      tag ''div'' ''price'' '' $1,500 '',
      tag ''span'' ''bedrooms'' ''2'',
      tag ''span'' ''bathrooms'' ''1'',
      tag ''span'' ''sqft'' ''800'',
      tag ''div'' ''address'' addr]"

definition ex_page :: "string \<Rightarrow> string \<Rightarrow> soup" where
  "ex_page addr descr = ex_page_no_description addr @ [tag ''div'' ''description'' descr]"

definition ex_doc_a :: soup where
  "ex_doc_a = ex_page ''1 Brickell Ave, Miami, FL 33131''
                      ''Wheelchair accessible. Section 8 Welcome!''"

definition ex_doc_b :: soup where
  "ex_doc_b = ex_page ''2 Flagler St, Miami, FL 33125''
                      ''ADA compliant, housing choice voucher taken''"

definition ex_doc_c :: soup where
  "ex_doc_c = ex_page ''3 Main Hwy, Miami, FL 33133'' ''Accessible unit; HCV welcome''"

definition ex_doc_d :: soup where
  "ex_doc_d = ex_page ''4 Brickell Ave, Miami, FL 33131'' ''Nice view''"

definition ex_doc_e :: soup where
  "ex_doc_e = ex_page_no_description ''5 Brickell Ave, Miami, FL 33131''"

definition ex_fetch :: "string \<Rightarrow> error + soup" where
  "ex_fetch u =
     (if u = ''/a'' then Inr ex_doc_a
      else if u = ''/b'' then Inr ex_doc_b
      else if u = ''/c'' then Inr ex_doc_c
      else if u = ''/d'' then Inr ex_doc_d
      else if u = ''/e'' then Inr ex_doc_e
      else Inl RequestException)"

definition ex_listing :: "string \<Rightarrow> string \<Rightarrow> string \<Rightarrow> string \<Rightarrow> bool \<Rightarrow> bool \<Rightarrow> listing" where
  "ex_listing u addr z descr w s =
     \<lparr> title = ''Sunny flat'', price = ''$1,500'', bedrooms = ''2'', bathrooms = ''1'',
       sqft = ''800'', address = addr, zip_code = z, wheelchair_accessible = w,
       section_8_accepted = s, description = descr, url = u \<rparr>"

definition ex_listing_a :: listing where
  "ex_listing_a =
     ex_listing ''/a'' ''1 Brickell Ave, Miami, FL 33131'' ''33131''
       ''Wheelchair accessible. Section 8 Welcome!'' True True"

definition ex_listing_b :: listing where
  "ex_listing_b =
     ex_listing ''/b'' ''2 Flagler St, Miami, FL 33125'' ''33125''
       ''ADA compliant, housing choice voucher taken'' True True"

definition ex_listing_c :: listing where
  "ex_listing_c =
     ex_listing ''/c'' ''3 Main Hwy, Miami, FL 33133'' ''33133''
       ''Accessible unit; HCV welcome'' True True"

definition ex_listing_d :: listing where
  "ex_listing_d =
     ex_listing ''/d'' ''4 Brickell Ave, Miami, FL 33131'' ''33131'' ''Nice view'' False False"

text \<open>Page 1 has three links and page 2 cannot be fetched.\<close>

definition ex_search_fault :: "int \<Rightarrow> error + soup" where
  "ex_search_fault page =
     (if page = 1 then Inr [link ''/a'', link ''/b'', link ''/c'']
      else if page = 2 then Inl RequestException
      else Inr [link ''/d''])"

text \<open>Two pages; the links \<open>/x\<close> and \<open>/e\<close> fail, and \<open>/d\<close> is not accessible.\<close>

definition ex_links :: "int \<Rightarrow> string list" where
  "ex_links page = (if page = 1 then [''/a'', ''/x'', ''/b''] else [''/d'', ''/e'', ''/c''])"

definition ex_search :: "int \<Rightarrow> error + soup" where
  "ex_search page = Inr (map link (ex_links page))"

text \<open>Filters that only restrict the ZIP code, and filters that restrict everything.\<close>

definition ex_zip_filters :: filters where
  "ex_zip_filters = set_filters init_filters [(''zip_codes'', VList [SStr ''33131''])]"

definition ex_strict_filters :: filters where
  "ex_strict_filters =
     set_filters init_filters
       [(''zip_codes'', VList [SStr ''33131'', SInt 33125]),
        (''wheelchair_accessible'', VBool True),
        (''section_8_accepted'', VInt 1)]"

definition ex_start :: run_state where
  "ex_start = \<lparr>all_listings = [], events = []\<rparr>"

text \<open>Three clock readings: the second is in the same second as the first.\<close>

definition ex_now :: datetime where
  "ex_now = \<lparr>year = 2024, month = 1, day = 2, hour = 3, minute = 4, second = 5,
             microsecond = 0\<rparr>"

definition ex_later :: datetime where
  "ex_later = \<lparr>year = 2024, month = 1, day = 2, hour = 3, minute = 4, second = 5,
               microsecond = 500000\<rparr>"

definition ex_next :: datetime where
  "ex_next = \<lparr>year = 2024, month = 1, day = 2, hour = 3, minute = 4, second = 6,
              microsecond = 0\<rparr>"

text \<open>A page that is accessible and takes Section 8, with a ZIP code outside Miami.\<close>

definition ex_doc_f :: soup where
  "ex_doc_f = ex_page ''6 Ocean Dr, Miami Beach, FL 33139''
                      ''Wheelchair accessible. Section 8 Welcome!''"

definition ex_listing_f :: listing where
  "ex_listing_f =
     ex_listing ''/f'' ''6 Ocean Dr, Miami Beach, FL 33139'' ''33139''
       ''Wheelchair accessible. Section 8 Welcome!'' True True"

definition ex_fetch_outside :: "string \<Rightarrow> error + soup" where
  "ex_fetch_outside u = (if u = ''/f'' then Inr ex_doc_f else ex_fetch u)"

section \<open>Properties\<close>

subsection \<open>Exceptions, lists\<close>

lemma try_bind_Inl [simp]: "try_bind (Inl e) k = Inl e"
  by (simp add: try_bind_def)

lemma try_bind_Inr [simp]: "try_bind (Inr x) k = k x"
  by (simp add: try_bind_def)

lemma try_bind_eq_Inr:
  "try_bind m k = Inr y \<longleftrightarrow> (\<exists>x. m = Inr x \<and> k x = Inr y)"
  by (cases m) simp_all

lemma map_filter_append:
  "List.map_filter f (xs @ ys) = List.map_filter f xs @ List.map_filter f ys"
  by (simp add: List.map_filter_def)

lemma map_filter_concat:
  "List.map_filter f (concat xss) = concat (map (List.map_filter f) xss)"
  by (induction xss) (simp_all add: map_filter_append)

lemma set_map_filter: "y \<in> set (List.map_filter f xs) \<longleftrightarrow> (\<exists>x \<in> set xs. f x = Some y)"
  by (induction xs) (auto split: option.splits)

subsection \<open>Substring test and lower-casing\<close>

lemma contains_iff_sublist: "contains hay needle \<longleftrightarrow> sublist needle hay"
  by (induction hay) (simp_all add: sublist_Cons_right)

lemma contains_iff: "contains hay needle \<longleftrightarrow> (\<exists>ps ss. hay = ps @ needle @ ss)"
  by (simp add: contains_iff_sublist sublist_def)

lemma any_in_iff:
  "any_in indicators text \<longleftrightarrow> (\<exists>k \<in> set indicators. \<exists>ps ss. text = ps @ k @ ss)"
  by (simp add: any_in_def list_ex_iff contains_iff)

lemma lower_append: "lower (xs @ ys) = lower xs @ lower ys"
  by (simp add: lower_def)

lemma lower_section_8_welcome: "lower ''Section 8 Welcome'' = ''section 8 welcome''"
  by (simp add: lower_def lower_char_def)

lemma contains_lower_section_8_welcome:
  assumes "t = ps @ ''Section 8 Welcome'' @ ss"
  shows "any_in section8_indicators (lower t)"
proof -
  have "lower t = lower ps @ ''section 8 welcome'' @ lower ss"
    using assms by (simp only: lower_append lower_section_8_welcome)
  moreover have "''section 8 welcome'' \<in> set section8_indicators"
    by (simp add: section8_indicators_def)
  ultimately show ?thesis
    unfolding any_in_iff by blast
qed

subsection \<open>One listing\<close>

lemma scrape_listing_SomeD:
  assumes "scrape_listing fs fetch u = Some ld"
  shows "\<exists>doc. fetch u = Inr doc \<and> flags_reject fs doc = Inr False \<and>
           listing_data doc u = Inr ld \<and> zip_reject fs ld = Inr False"
  using assms
  by (auto simp add: scrape_listing_def scrape_listing_try_def try_bind_def
           split: sum.splits if_splits)

lemma scrape_listing_SomeI:
  assumes "fetch u = Inr doc" "flags_reject fs doc = Inr False"
    "listing_data doc u = Inr ld" "zip_reject fs ld = Inr False"
  shows "scrape_listing fs fetch u = Some ld"
  using assms by (simp add: scrape_listing_def scrape_listing_try_def)

lemma listing_data_fields:
  assumes "listing_data doc u = Inr ld"
  shows "zip_code ld = extract_zip_code doc"
    and "wheelchair_accessible ld = is_wheelchair_accessible doc"
    and "section_8_accepted ld = accepts_section_8 doc"
    and "url ld = u"
  using assms by (auto simp add: listing_data_def try_bind_eq_Inr)

lemma flags_reject_FalseD:
  assumes "flags_reject fs doc = Inr False"
  shows "fs ''wheelchair_accessible'' = Some w \<Longrightarrow> truthy w \<Longrightarrow> is_wheelchair_accessible doc"
    and "fs ''section_8_accepted'' = Some s \<Longrightarrow> truthy s \<Longrightarrow> accepts_section_8 doc"
  using assms
  by (auto simp add: flags_reject_def dict_get_def try_bind_def
           split: sum.splits if_splits option.splits)

lemma zip_reject_FalseD:
  assumes "zip_reject fs ld = Inr False" "fs ''zip_codes'' = Some z" "truthy z"
  shows "py_in (zip_code ld) z = Inr True"
  using assms
  by (auto simp add: zip_reject_def dict_get_def try_bind_def split: sum.splits)

lemma zip_reject_empty_set:
  "fs ''zip_codes'' = Some (VSet {||}) \<Longrightarrow> zip_reject fs ld = Inr False"
  by (simp add: zip_reject_def dict_get_def)

lemma zip_reject_not_truthy:
  "fs ''zip_codes'' = Some z \<Longrightarrow> \<not> truthy z \<Longrightarrow> zip_reject fs ld = Inr False"
  by (simp add: zip_reject_def dict_get_def)

lemma scrape_listing_zip_outside:
  assumes "fs ''zip_codes'' = Some z" and "fetch u = Inr doc"
    and "truthy z" and "py_in (extract_zip_code doc) z \<noteq> Inr True"
  shows "scrape_listing fs fetch u = None"
proof (cases "scrape_listing fs fetch u")
  case None
  then show ?thesis .
next
  case (Some ld')
  from scrape_listing_SomeD [OF Some] assms(2)
  have ld': "listing_data doc u = Inr ld'" "zip_reject fs ld' = Inr False"
    by auto
  from zip_reject_FalseD [OF ld'(2) assms(1) assms(3)]
  have "py_in (zip_code ld') z = Inr True" .
  with assms(4) listing_data_fields(1) [OF ld'(1)] show ?thesis by simp
qed

lemma field_text_None:
  "soup_find doc name cls = None \<Longrightarrow> field_text doc name cls = Inl AttributeError"
  by (simp add: field_text_def)

lemma listing_data_missing:
  assumes "soup_find doc ''h1'' ''listing-title'' = None \<or>
           soup_find doc ''div'' ''price'' = None \<or>
           soup_find doc ''span'' ''bedrooms'' = None \<or>
           soup_find doc ''span'' ''bathrooms'' = None \<or>
           soup_find doc ''span'' ''sqft'' = None \<or>
           soup_find doc ''div'' ''address'' = None \<or>
           soup_find doc ''div'' ''description'' = None"
  shows "listing_data doc u = Inl AttributeError"
  using assms by (auto simp add: listing_data_def field_text_def split: option.splits)

subsection \<open>The two loops\<close>

lemma listing_loop_eq:
  "listing_loop fs fetch us st =
     \<lparr>all_listings = all_listings st @ List.map_filter (scrape_listing fs fetch) us,
      events = events st @ map ListingPage us\<rparr>"
  by (induction us arbitrary: st) (simp_all add: log_event_def split: option.splits)

lemma page_loop_listings_ok:
  "\<forall>page \<in> set pages. page_urls search page = Inr (links page) \<Longrightarrow>
   all_listings (page_loop fs search fetch pages st) =
     all_listings st @ List.map_filter (scrape_listing fs fetch) (concat (map links pages))"
  by (induction pages arbitrary: st)
     (simp_all add: listing_loop_eq log_event_def map_filter_append)

lemma page_loop_break:
  "page_urls search p = Inl e \<Longrightarrow>
   page_loop fs search fetch (ps1 @ p # ps2) st = page_loop fs search fetch (ps1 @ [p]) st"
  by (induction ps1 arbitrary: st) (simp_all split: sum.splits)

lemma page_loop_break_listings:
  "page_urls search p = Inl e \<Longrightarrow>
   all_listings (page_loop fs search fetch (ps1 @ [p]) st) =
   all_listings (page_loop fs search fetch ps1 st)"
  by (induction ps1 arbitrary: st) (simp_all add: log_event_def split: sum.splits)

lemma page_loop_events:
  "set (events (page_loop fs search fetch ps st)) \<subseteq>
   set (events st) \<union> SearchPage ` set ps \<union> range ListingPage"
proof (induction ps arbitrary: st)
  case Nil
  show ?case by simp
next
  case (Cons p ps)
  show ?case
  proof (cases "page_urls search p")
    case (Inl e)
    then show ?thesis by (auto simp add: log_event_def)
  next
    case (Inr us)
    have "set (events (listing_loop fs fetch us (log_event (SearchPage p) st))) \<subseteq>
          set (events st) \<union> SearchPage ` set (p # ps) \<union> range ListingPage"
      by (auto simp add: listing_loop_eq log_event_def)
    with Cons.IH [of "listing_loop fs fetch us (log_event (SearchPage p) st)"] Inr
    show ?thesis by auto
  qed
qed

lemma page_loop_listings_from:
  "\<exists>ps'. set ps' \<subseteq> set ps \<and> (\<forall>p \<in> set ps'. \<exists>us. page_urls search p = Inr us) \<and>
     all_listings (page_loop fs search fetch ps st) =
       all_listings st @
       List.map_filter (scrape_listing fs fetch)
         (concat (map (\<lambda>p. projr (page_urls search p)) ps'))"
proof (induction ps arbitrary: st)
  case Nil
  show ?case by (rule exI [of _ "[]"]) simp
next
  case (Cons p ps)
  show ?case
  proof (cases "page_urls search p")
    case (Inl e)
    then show ?thesis by (intro exI [of _ "[]"]) (simp add: log_event_def)
  next
    case (Inr us)
    from Cons.IH [of "listing_loop fs fetch us (log_event (SearchPage p) st)"]
    obtain ps' where ps': "set ps' \<subseteq> set ps"
        "\<forall>p \<in> set ps'. \<exists>us. page_urls search p = Inr us"
        "all_listings (page_loop fs search fetch ps
            (listing_loop fs fetch us (log_event (SearchPage p) st))) =
         all_listings (listing_loop fs fetch us (log_event (SearchPage p) st)) @
         List.map_filter (scrape_listing fs fetch)
           (concat (map (\<lambda>p. projr (page_urls search p)) ps'))"
      by blast
    show ?thesis
      using Inr ps'
      by (intro exI [of _ "p # ps'"])
         (auto simp add: listing_loop_eq log_event_def map_filter_append)
  qed
qed

lemma in_page_loop_listings:
  assumes "ld \<in> set (all_listings (page_loop fs search fetch ps st))"
  shows "ld \<in> set (all_listings st) \<or> (\<exists>u. scrape_listing fs fetch u = Some ld)"
proof -
  obtain ps' where
    "all_listings (page_loop fs search fetch ps st) =
       all_listings st @
       List.map_filter (scrape_listing fs fetch)
         (concat (map (\<lambda>p. projr (page_urls search p)) ps'))"
    using page_loop_listings_from [of ps search fs fetch st] by blast
  with assms show ?thesis
    by (auto simp add: set_map_filter)
qed

subsection \<open>Setting the filters\<close>

lemma set_filters_keeps_keys: "fs k \<noteq> None \<Longrightarrow> set_filters fs kwargs k \<noteq> None"
  by (induction kwargs arbitrary: fs) auto

lemma set_filters_other:
  "k \<notin> fst ` set kwargs \<Longrightarrow> set_filters fs kwargs k = fs k"
  by (induction kwargs arbitrary: fs) auto

lemma set_filters_at_zip_codes:
  assumes "distinct (map fst kwargs)" and "(''zip_codes'', v) \<in> set kwargs"
    and "fs ''zip_codes'' \<noteq> None"
  shows "set_filters fs kwargs ''zip_codes'' =
           Some (if is_list_or_set v then zip_code_set v else v)"
  using assms
proof (induction kwargs arbitrary: fs)
  case Nil
  then show ?case by simp
next
  case (Cons kv kwargs)
  obtain key x where kv: "kv = (key, x)" by (cases kv)
  show ?case
  proof (cases "key = ''zip_codes''")
    case True
    with Cons.prems kv have x: "x = v" and later: "''zip_codes'' \<notin> fst ` set kwargs"
      by force+
    show ?thesis
      using Cons.prems(3) by (simp add: kv True x set_filters_other [OF later])
  next
    case False
    with Cons.prems kv have "(''zip_codes'', v) \<in> set kwargs" "distinct (map fst kwargs)"
      by auto
    with Cons.IH Cons.prems(3) False show ?thesis
      by (simp add: kv)
  qed
qed

subsection \<open>File names\<close>

lemma digit_char_inj:
  assumes "a < 10" "b < 10" "digit_char a = digit_char b"
  shows "a = b"
proof -
  have "distinct ''0123456789''" by simp
  moreover have "a < length ''0123456789''" "b < length ''0123456789''"
    using assms by simp_all
  ultimately show ?thesis
    using assms(3) unfolding digit_char_def by (simp only: nth_eq_iff_index_eq)
qed

lemma digits2_inj:
  assumes "a < 100" "b < 100" "digits2 a = digits2 b"
  shows "a = b"
proof -
  from assms(3) have e1: "digit_char (a div 10 mod 10) = digit_char (b div 10 mod 10)"
    and e2: "digit_char (a mod 10) = digit_char (b mod 10)"
    by (simp_all add: digits2_def)
  have "a div 10 mod 10 = b div 10 mod 10"
    by (rule digit_char_inj [OF _ _ e1]) simp_all
  moreover have "a div 10 < 10" "b div 10 < 10"
    using assms(1,2) by simp_all
  ultimately have hi: "a div 10 = b div 10"
    by simp
  have lo: "a mod 10 = b mod 10"
    by (rule digit_char_inj [OF _ _ e2]) simp_all
  have "a = 10 * (a div 10) + a mod 10" by simp
  also have "\<dots> = 10 * (b div 10) + b mod 10" by (simp only: hi lo)
  also have "\<dots> = b" by simp
  finally show ?thesis .
qed

lemma length_digits2 [simp]: "length (digits2 n) = 2"
  by (simp add: digits2_def)

lemma length_digits4 [simp]: "length (digits4 n) = 4"
  by (simp add: digits4_def)

lemma digits4_inj:
  assumes "a < 10000" "b < 10000" "digits4 a = digits4 b"
  shows "a = b"
proof -
  from assms(3) have e1: "digits2 (a div 100) = digits2 (b div 100)"
    and e2: "digits2 (a mod 100) = digits2 (b mod 100)"
    by (simp_all add: digits4_def)
  have "a div 100 < 100" "b div 100 < 100"
    using assms(1,2) by simp_all
  then have hi: "a div 100 = b div 100"
    using e1 by (rule digits2_inj)
  have lo: "a mod 100 = b mod 100"
    by (rule digits2_inj [OF _ _ e2]) simp_all
  have "a = 100 * (a div 100) + a mod 100" by simp
  also have "\<dots> = 100 * (b div 100) + b mod 100" by (simp only: hi lo)
  also have "\<dots> = b" by simp
  finally show ?thesis .
qed

lemma strftime_eq_iff:
  assumes "valid_datetime s" "valid_datetime t"
  shows "strftime s = strftime t \<longleftrightarrow>
           year s = year t \<and> month s = month t \<and> day s = day t \<and>
           hour s = hour t \<and> minute s = minute t \<and> second s = second t"
proof
  assume eq: "strftime s = strftime t"
  then have parts: "digits4 (year s) = digits4 (year t)" "digits2 (month s) = digits2 (month t)"
    "digits2 (day s) = digits2 (day t)" "digits2 (hour s) = digits2 (hour t)"
    "digits2 (minute s) = digits2 (minute t)" "digits2 (second s) = digits2 (second t)"
    by (simp_all add: strftime_def)
  have "year s = year t"
    by (rule digits4_inj [OF _ _ parts(1)]) (use assms in \<open>simp_all add: valid_datetime_def\<close>)
  moreover have "month s = month t"
    by (rule digits2_inj [OF _ _ parts(2)]) (use assms in \<open>simp_all add: valid_datetime_def\<close>)
  moreover have "day s = day t"
    by (rule digits2_inj [OF _ _ parts(3)]) (use assms in \<open>simp_all add: valid_datetime_def\<close>)
  moreover have "hour s = hour t"
    by (rule digits2_inj [OF _ _ parts(4)]) (use assms in \<open>simp_all add: valid_datetime_def\<close>)
  moreover have "minute s = minute t"
    by (rule digits2_inj [OF _ _ parts(5)]) (use assms in \<open>simp_all add: valid_datetime_def\<close>)
  moreover have "second s = second t"
    by (rule digits2_inj [OF _ _ parts(6)]) (use assms in \<open>simp_all add: valid_datetime_def\<close>)
  ultimately show "year s = year t \<and> month s = month t \<and> day s = day t \<and>
      hour s = hour t \<and> minute s = minute t \<and> second s = second t"
    by simp
next
  assume "year s = year t \<and> month s = month t \<and> day s = day t \<and>
      hour s = hour t \<and> minute s = minute t \<and> second s = second t"
  then show "strftime s = strftime t"
    by (simp add: strftime_def)
qed

subsection \<open>The examples, evaluated\<close>

lemma main_filters_simps:
  "main_filters ''zip_codes'' =
     Some (VDictKeys (map SStr [''33125'', ''33127'', ''33128'', ''33130'', ''33131'', ''33132'',
                                ''33133'', ''33134'', ''33135'', ''33136'', ''33137'', ''33138'']))"
  "main_filters ''wheelchair_accessible'' = Some (VBool True)"
  "main_filters ''section_8_accepted'' = Some (VBool True)"
  by (simp_all add: main_filters_def main_kwargs_def init_filters_def MIAMI_ZIP_CODES_def)

lemma init_filters_simps:
  "init_filters ''zip_codes'' = Some (VSet {||})"
  "init_filters ''wheelchair_accessible'' = Some (VBool False)"
  "init_filters ''section_8_accepted'' = Some (VBool False)"
  by (simp_all add: init_filters_def)

lemma ex_zip_filters_simps:
  "ex_zip_filters ''zip_codes'' = Some (VSet {|SStr ''33131''|})"
  "ex_zip_filters ''wheelchair_accessible'' = Some (VBool False)"
  "ex_zip_filters ''section_8_accepted'' = Some (VBool False)"
  by (simp_all add: ex_zip_filters_def init_filters_def)

lemma str_33125: "str_nat 33125 = ''33125''"
  by (simp add: str_nat.simps digit_char_def)

lemma ex_strict_filters_simps:
  "ex_strict_filters ''zip_codes'' = Some (VSet {|SStr ''33131'', SStr ''33125''|})"
  "ex_strict_filters ''wheelchair_accessible'' = Some (VBool True)"
  "ex_strict_filters ''section_8_accepted'' = Some (VInt 1)"
  by (simp_all add: ex_strict_filters_def init_filters_def str_33125)

lemmas ex_doc_defs = ex_doc_a_def ex_doc_b_def ex_doc_c_def ex_doc_d_def ex_doc_e_def
  ex_page_def ex_page_no_description_def tag_def link_def

lemmas find_defs = soup_find_def el_matches_def

lemma ex_fetch_simps:
  "ex_fetch ''/a'' = Inr ex_doc_a"
  "ex_fetch ''/b'' = Inr ex_doc_b"
  "ex_fetch ''/c'' = Inr ex_doc_c"
  "ex_fetch ''/d'' = Inr ex_doc_d"
  "ex_fetch ''/e'' = Inr ex_doc_e"
  "ex_fetch ''/x'' = Inl RequestException"
  by (simp_all add: ex_fetch_def)

lemma ex_zip_codes:
  "extract_zip_code ex_doc_a = ''33131''"
  "extract_zip_code ex_doc_b = ''33125''"
  "extract_zip_code ex_doc_c = ''33133''"
  "extract_zip_code ex_doc_d = ''33131''"
  "extract_zip_code ex_doc_e = ''33131''"
  by (simp_all add: extract_zip_code_def ex_doc_defs find_defs strip_def is_space_def
        five_digits_here_def is_digit_def is_word_def)

lemmas classifier_defs = is_wheelchair_accessible_def accepts_section_8_def any_in_def
  lower_def lower_char_def accessibility_indicators_def section8_indicators_def

lemma ex_accessible:
  "is_wheelchair_accessible ex_doc_a = True"
  "is_wheelchair_accessible ex_doc_b = True"
  "is_wheelchair_accessible ex_doc_c = True"
  "is_wheelchair_accessible ex_doc_d = False"
  "is_wheelchair_accessible ex_doc_e = False"
  by (simp_all add: classifier_defs ex_doc_defs find_defs)

lemma ex_section_8:
  "accepts_section_8 ex_doc_a = True"
  "accepts_section_8 ex_doc_b = True"
  "accepts_section_8 ex_doc_c = True"
  "accepts_section_8 ex_doc_d = False"
  "accepts_section_8 ex_doc_e = False"
  by (simp_all add: classifier_defs ex_doc_defs find_defs)

lemma ex_listing_data:
  "listing_data ex_doc_a ''/a'' = Inr ex_listing_a"
  "listing_data ex_doc_b ''/b'' = Inr ex_listing_b"
  "listing_data ex_doc_c ''/c'' = Inr ex_listing_c"
  "listing_data ex_doc_d ''/d'' = Inr ex_listing_d"
  "listing_data ex_doc_e ''/e'' = Inl AttributeError"
      apply (simp_all add: listing_data_def ex_zip_codes ex_accessible ex_section_8)
      apply (simp_all add: ex_doc_defs field_text_def find_defs strip_def is_space_def
        ex_listing_a_def ex_listing_b_def ex_listing_c_def ex_listing_d_def ex_listing_def)
  done

lemma ex_scrape_main:
  "scrape_listing main_filters ex_fetch ''/a'' = Some ex_listing_a"
  "scrape_listing main_filters ex_fetch ''/b'' = Some ex_listing_b"
  "scrape_listing main_filters ex_fetch ''/c'' = Some ex_listing_c"
  "scrape_listing main_filters ex_fetch ''/d'' = None"
  "scrape_listing main_filters ex_fetch ''/e'' = None"
  "scrape_listing main_filters ex_fetch ''/x'' = None"
  by (simp_all add: scrape_listing_def scrape_listing_try_def ex_fetch_simps flags_reject_def
        zip_reject_def dict_get_def main_filters_simps ex_accessible ex_section_8
        ex_listing_data ex_listing_a_def ex_listing_b_def ex_listing_c_def ex_listing_def)

lemma ex_scrape_strict:
  "scrape_listing ex_strict_filters ex_fetch ''/a'' = Some ex_listing_a"
  "scrape_listing ex_strict_filters ex_fetch ''/b'' = Some ex_listing_b"
  "scrape_listing ex_strict_filters ex_fetch ''/c'' = None"
  "scrape_listing ex_strict_filters ex_fetch ''/d'' = None"
  "scrape_listing ex_strict_filters ex_fetch ''/e'' = None"
  "scrape_listing ex_strict_filters ex_fetch ''/x'' = None"
  by (simp_all add: scrape_listing_def scrape_listing_try_def ex_fetch_simps flags_reject_def
        zip_reject_def dict_get_def ex_strict_filters_simps ex_accessible ex_section_8
        ex_listing_data ex_listing_a_def ex_listing_b_def ex_listing_c_def ex_listing_def)

lemma hrefs_links: "hrefs (map link us) = Inr us"
  by (induction us) (simp_all add: link_def)

lemma listing_urls_links: "listing_urls (map link us) = Inr us"
proof -
  have "soup_find_all (map link us) ''a'' ''listing-link'' = map link us"
    by (induction us) (simp_all add: soup_find_all_def el_matches_def link_def)
  then show ?thesis by (simp add: listing_urls_def hrefs_links)
qed

lemma ex_page_urls: "page_urls ex_search page = Inr (ex_links page)"
  by (simp add: page_urls_def ex_search_def listing_urls_links)

lemma ex_page_urls_fault:
  "page_urls ex_search_fault 1 = Inr [''/a'', ''/b'', ''/c'']"
  "page_urls ex_search_fault 2 = Inl RequestException"
  using listing_urls_links [of "[''/a'', ''/b'', ''/c'']"]
  by (simp_all add: page_urls_def ex_search_fault_def)

lemma upto_1_2: "[1..2] = [1, 2::int]"
  by (simp add: upto_rec1)

lemma ex_run_one_page:
  "all_listings (scrape_listings main_filters ex_search_fault ex_fetch 1) =
     [ex_listing_a, ex_listing_b, ex_listing_c]"
  by (simp add: scrape_listings_def ex_page_urls_fault listing_loop_eq log_event_def
        ex_scrape_main)

lemma ex_run_strict:
  "all_listings (scrape_listings ex_strict_filters ex_search ex_fetch 2) =
     [ex_listing_a, ex_listing_b]"
  by (simp add: scrape_listings_def ex_page_urls ex_links_def listing_loop_eq log_event_def
        ex_scrape_strict upto_1_2)

lemma ex_outside_simps:
  "ex_fetch_outside ''/f'' = Inr ex_doc_f"
  "extract_zip_code ex_doc_f = ''33139''"
  "flags_reject main_filters ex_doc_f = Inr False"
  "listing_data ex_doc_f ''/f'' = Inr ex_listing_f"
     apply (simp add: ex_fetch_outside_def)
    apply (simp add: extract_zip_code_def ex_doc_f_def ex_doc_defs find_defs strip_def
      is_space_def five_digits_here_def is_digit_def is_word_def)
   apply (simp add: flags_reject_def dict_get_def main_filters_simps classifier_defs
      ex_doc_f_def ex_doc_defs find_defs)
  apply (simp add: listing_data_def field_text_def extract_zip_code_def classifier_defs
      ex_doc_f_def ex_doc_defs find_defs strip_def is_space_def five_digits_here_def
      is_digit_def is_word_def ex_listing_f_def ex_listing_def)
  done

lemma ex_run_main:
  "all_listings (scrape_listings main_filters ex_search ex_fetch 2) =
     [ex_listing_a, ex_listing_b, ex_listing_c]"
  by (simp add: scrape_listings_def ex_page_urls ex_links_def listing_loop_eq log_event_def
        ex_scrape_main upto_1_2)

lemma ex_field_texts_e:
  "field_text ex_doc_e ''h1'' ''listing-title'' = Inr ''Sunny flat''"
  "field_text ex_doc_e ''div'' ''price'' = Inr ''$1,500''"
  "field_text ex_doc_e ''span'' ''bedrooms'' = Inr ''2''"
  "field_text ex_doc_e ''span'' ''bathrooms'' = Inr ''1''"
  "field_text ex_doc_e ''span'' ''sqft'' = Inr ''800''"
  "field_text ex_doc_e ''div'' ''address'' = Inr ''5 Brickell Ave, Miami, FL 33131''"
  "soup_find ex_doc_e ''div'' ''description'' = None"
  by (simp_all add: field_text_def ex_doc_defs find_defs strip_def is_space_def)

lemma ex_scrape_init:
  "scrape_listing init_filters ex_fetch ''/a'' = Some ex_listing_a"
  "flags_reject init_filters ex_doc_e = Inr False"
  "scrape_listing_try init_filters ex_fetch ''/e'' = Inl AttributeError"
  by (simp_all add: scrape_listing_def scrape_listing_try_def ex_fetch_simps flags_reject_def
        zip_reject_def dict_get_def init_filters_simps ex_accessible ex_section_8
        ex_listing_data ex_listing_a_def ex_listing_def)

lemma ex_valid: "valid_datetime ex_now" "valid_datetime ex_later" "valid_datetime ex_next"
  by (simp_all add: valid_datetime_def ex_now_def ex_later_def ex_next_def)

subsection \<open>The filter\<close>

text \<open>
  C1. Let \<open>z\<close> be the value of the filter \<open>zip_codes\<close>, of any kind. When \<open>z\<close> is truthy (a
  non-empty collection) and the ZIP code of the page is not in \<open>z\<close>, \<open>scrape_listing\<close>
  returns no listing; this is spelled out for a set and for a list, a tuple and the keys
  of a dict. When \<open>z\<close> is not truthy (the empty set), the ZIP check rejects no listing: a
  page that passes the two flag checks and whose fields are all found is returned.
  "In" is the \<open>in\<close> of Python: membership in a collection, the substring test when \<open>z\<close>
  is a string, and an error (so no listing) when \<open>z\<close> is not iterable.
\<close>

theorem zip_filter_vacuous_allow:
  assumes "fs ''zip_codes'' = Some z" and "fetch u = Inr doc"
  shows "(truthy z \<and> py_in (extract_zip_code doc) z \<noteq> Inr True \<longrightarrow>
            scrape_listing fs fetch u = None) \<and>
         (\<forall>S. z = VSet S \<and> S \<noteq> {||} \<and> SStr (extract_zip_code doc) |\<notin>| S \<longrightarrow>
            scrape_listing fs fetch u = None) \<and>
         (\<forall>xs. (z = VList xs \<or> z = VTuple xs \<or> z = VDictKeys xs) \<and> xs \<noteq> [] \<and>
               SStr (extract_zip_code doc) \<notin> set xs \<longrightarrow>
            scrape_listing fs fetch u = None) \<and>
         (\<not> truthy z \<longrightarrow> (\<forall>ld'. zip_reject fs ld' = Inr False)) \<and>
         (\<not> truthy z \<and> flags_reject fs doc = Inr False \<and> listing_data doc u = Inr ld \<longrightarrow>
            scrape_listing fs fetch u = Some ld) \<and>
         (z = VSet {||} \<and> flags_reject fs doc = Inr False \<and> listing_data doc u = Inr ld \<longrightarrow>
            scrape_listing fs fetch u = Some ld)"
proof -
  note outside = scrape_listing_zip_outside [where fs = fs and z = z and fetch = fetch and u = u
      and doc = doc, OF assms]
  have general: "scrape_listing fs fetch u = None"
    if "truthy z \<and> py_in (extract_zip_code doc) z \<noteq> Inr True"
    using that outside by blast
  have for_set: "scrape_listing fs fetch u = None"
    if "z = VSet S \<and> S \<noteq> {||} \<and> SStr (extract_zip_code doc) |\<notin>| S" for S
    using that outside by simp
  have for_list: "scrape_listing fs fetch u = None"
    if "(z = VList xs \<or> z = VTuple xs \<or> z = VDictKeys xs) \<and> xs \<noteq> [] \<and>
        SStr (extract_zip_code doc) \<notin> set xs" for xs
    using that outside by auto
  have allow: "zip_reject fs ld' = Inr False" if "\<not> truthy z" for ld'
    using zip_reject_not_truthy [where fs = fs and z = z, OF assms(1) that] .
  have accept: "scrape_listing fs fetch u = Some ld"
    if "\<not> truthy z \<and> flags_reject fs doc = Inr False \<and> listing_data doc u = Inr ld"
    using that assms(2) allow [of ld] by (simp add: scrape_listing_SomeI)
  have accept_set: "scrape_listing fs fetch u = Some ld"
    if "z = VSet {||} \<and> flags_reject fs doc = Inr False \<and> listing_data doc u = Inr ld"
    using that accept by simp
  from general for_set for_list allow accept accept_set show ?thesis
    by blast
qed

theorem zip_filter_vacuous_allow_witness:
  "ex_zip_filters ''zip_codes'' = Some (VSet {|SStr ''33131''|}) \<and>
   ex_fetch ''/b'' = Inr ex_doc_b \<and>
   SStr (extract_zip_code ex_doc_b) |\<notin>| {|SStr ''33131''|} \<and>
   scrape_listing ex_zip_filters ex_fetch ''/b'' = None \<and>
   init_filters ''zip_codes'' = Some (VSet {||}) \<and>
   flags_reject init_filters ex_doc_b = Inr False \<and>
   listing_data ex_doc_b ''/b'' = Inr ex_listing_b \<and>
   zip_reject init_filters ex_listing_b = Inr False \<and>
   scrape_listing init_filters ex_fetch ''/b'' = Some ex_listing_b \<and>
   main_filters ''zip_codes'' =
     Some (VDictKeys (map SStr [''33125'', ''33127'', ''33128'', ''33130'', ''33131'', ''33132'',
                                ''33133'', ''33134'', ''33135'', ''33136'', ''33137'', ''33138''])) \<and>
   ex_fetch_outside ''/f'' = Inr ex_doc_f \<and>
   flags_reject main_filters ex_doc_f = Inr False \<and>
   listing_data ex_doc_f ''/f'' = Inr ex_listing_f \<and>
   extract_zip_code ex_doc_f = ''33139'' \<and>
   scrape_listing main_filters ex_fetch_outside ''/f'' = None"
proof -
  have flags: "flags_reject init_filters ex_doc_b = Inr False"
    by (simp add: flags_reject_def dict_get_def init_filters_simps)
  have out: "SStr (extract_zip_code ex_doc_b) |\<notin>| {|SStr ''33131''|}"
    by (simp add: ex_zip_codes)
  from zip_filter_vacuous_allow [where fs = ex_zip_filters and z = "VSet {|SStr ''33131''|}" and fetch = ex_fetch
        and u = "''/b''" and doc = ex_doc_b and ld = ex_listing_b,
      OF ex_zip_filters_simps(1) ex_fetch_simps(2)] out
  have one: "scrape_listing ex_zip_filters ex_fetch ''/b'' = None"
    by simp
  from zip_filter_vacuous_allow [where fs = init_filters and z = "VSet {||}" and fetch = ex_fetch
        and u = "''/b''" and doc = ex_doc_b and ld = ex_listing_b,
      OF init_filters_simps(1) ex_fetch_simps(2)]
    flags ex_listing_data(2)
  have two: "zip_reject init_filters ex_listing_b = Inr False \<and>
        scrape_listing init_filters ex_fetch ''/b'' = Some ex_listing_b"
    by simp
  from zip_filter_vacuous_allow [where fs = main_filters and fetch = ex_fetch_outside
        and u = "''/f''" and doc = ex_doc_f and ld = ex_listing_f,
      OF main_filters_simps(1) ex_outside_simps(1)]
  have three: "scrape_listing main_filters ex_fetch_outside ''/f'' = None"
    by (simp add: ex_outside_simps(2))
  show ?thesis
    using one two three flags out ex_zip_filters_simps(1) ex_fetch_simps(2)
      init_filters_simps(1) ex_listing_data(2) main_filters_simps(1) ex_outside_simps
    by simp
qed

text \<open>
  C2. When the filter \<open>wheelchair_accessible\<close> is set and the page is not classified as
  wheelchair accessible, \<open>scrape_listing\<close> returns no listing, whatever the other filters
  and the other fields of the page are, and the loop over the links adds nothing to the
  result for this link.
\<close>

theorem wheelchair_required_rejects:
  assumes "fs ''wheelchair_accessible'' = Some w" and "truthy w"
    and "fetch u = Inr doc" and "\<not> is_wheelchair_accessible doc"
  shows "scrape_listing fs fetch u = None \<and>
         all_listings (listing_loop fs fetch [u] st) = all_listings st"
proof -
  have "flags_reject fs doc = Inr True"
    using assms by (simp add: flags_reject_def dict_get_def)
  then have "scrape_listing fs fetch u = None"
    using assms(3) by (simp add: scrape_listing_def scrape_listing_try_def)
  then show ?thesis by (simp add: log_event_def)
qed

theorem wheelchair_required_rejects_witness:
  "main_filters ''wheelchair_accessible'' = Some (VBool True) \<and> truthy (VBool True) \<and>
   ex_fetch ''/d'' = Inr ex_doc_d \<and> \<not> is_wheelchair_accessible ex_doc_d \<and>
   scrape_listing main_filters ex_fetch ''/d'' = None \<and>
   all_listings (listing_loop main_filters ex_fetch [''/d''] ex_start) = []"
proof -
  have acc: "\<not> is_wheelchair_accessible ex_doc_d"
    by (simp add: ex_accessible)
  have "truthy (VBool True)" by simp
  from wheelchair_required_rejects [where fs = main_filters and w = "VBool True" and fetch = ex_fetch
        and u = "''/d''" and doc = ex_doc_d and st = ex_start,
      OF main_filters_simps(2) this ex_fetch_simps(4) acc]
  show ?thesis
    using acc main_filters_simps(2) ex_fetch_simps(4) by (simp add: ex_start_def log_event_def)
qed

subsection \<open>The classifiers\<close>

text \<open>
  C3. On a document with a description, each classifier returns true exactly when the
  lower-cased text of the description contains one of its keyword phrases as a substring;
  in particular a description that contains "Section 8 Welcome" in this mixed case is
  classified as accepting Section 8.
\<close>

theorem classifier_iff_keyword_substring:
  assumes "soup_find doc ''div'' ''description'' = Some d"
  shows "(is_wheelchair_accessible doc \<longleftrightarrow>
           (\<exists>k \<in> set accessibility_indicators. \<exists>ps ss. lower (el_text d) = ps @ k @ ss)) \<and>
         (accepts_section_8 doc \<longleftrightarrow>
           (\<exists>k \<in> set section8_indicators. \<exists>ps ss. lower (el_text d) = ps @ k @ ss)) \<and>
         ((\<exists>ps ss. el_text d = ps @ ''Section 8 Welcome'' @ ss) \<longrightarrow> accepts_section_8 doc)"
proof (intro conjI)
  show "is_wheelchair_accessible doc \<longleftrightarrow>
           (\<exists>k \<in> set accessibility_indicators. \<exists>ps ss. lower (el_text d) = ps @ k @ ss)"
    using assms by (simp add: is_wheelchair_accessible_def any_in_iff)
  show "accepts_section_8 doc \<longleftrightarrow>
           (\<exists>k \<in> set section8_indicators. \<exists>ps ss. lower (el_text d) = ps @ k @ ss)"
    using assms by (simp add: accepts_section_8_def any_in_iff)
  show "(\<exists>ps ss. el_text d = ps @ ''Section 8 Welcome'' @ ss) \<longrightarrow> accepts_section_8 doc"
    using assms contains_lower_section_8_welcome
    by (auto simp add: accepts_section_8_def)
qed

theorem classifier_iff_keyword_substring_witness:
  "soup_find ex_doc_a ''div'' ''description'' =
     Some (tag ''div'' ''description'' ''Wheelchair accessible. Section 8 Welcome!'') \<and>
   el_text (tag ''div'' ''description'' ''Wheelchair accessible. Section 8 Welcome!'') =
     ''Wheelchair accessible. '' @ ''Section 8 Welcome'' @ ''!'' \<and>
   accepts_section_8 ex_doc_a"
proof -
  have found: "soup_find ex_doc_a ''div'' ''description'' =
      Some (tag ''div'' ''description'' ''Wheelchair accessible. Section 8 Welcome!'')"
    by (simp add: ex_doc_defs find_defs)
  have split_text: "el_text (tag ''div'' ''description'' ''Wheelchair accessible. Section 8 Welcome!'') =
      ''Wheelchair accessible. '' @ ''Section 8 Welcome'' @ ''!''"
    by (simp add: tag_def)
  then have "\<exists>ps ss.
      el_text (tag ''div'' ''description'' ''Wheelchair accessible. Section 8 Welcome!'') =
      ps @ ''Section 8 Welcome'' @ ss"
    by blast
  with classifier_iff_keyword_substring [where doc = ex_doc_a, OF found]
  have "accepts_section_8 ex_doc_a"
    by blast
  with found split_text show ?thesis by blast
qed

subsection \<open>The pagination driver\<close>

text \<open>
  C6. When search page \<open>k\<close> of a run over \<open>max_pages\<close> pages cannot be fetched, the run
  ends there: it is the run over \<open>k\<close> pages, it asks for no search page after \<open>k\<close>, and
  its listings are those of the run over the \<open>k - 1\<close> pages before. In \<open>main\<close>, whose
  budget is ten pages, these listings are what \<open>save_results\<close> receives.
\<close>

theorem search_fault_aborts_run:
  assumes "1 \<le> k" and "k \<le> max_pages" and "search k = Inl e"
  shows "scrape_listings fs search fetch max_pages = scrape_listings fs search fetch k \<and>
         all_listings (scrape_listings fs search fetch k) =
           all_listings (scrape_listings fs search fetch (k - 1)) \<and>
         (\<forall>q. k < q \<longrightarrow>
            SearchPage q \<notin> set (events (scrape_listings fs search fetch max_pages))) \<and>
         (k \<le> 10 \<longrightarrow>
            snd (main search fetch now) =
              save_results (all_listings (scrape_listings main_filters search fetch (k - 1))) now)"
proof -
  have brk: "page_urls search k = Inl e"
    using assms(3) by (simp add: page_urls_def)
  have split: "[1..n] = [1..k - 1] @ k # [k + 1..n]" if "k \<le> n" for n
    using upto_split3 [OF assms(1) that] .
  have upto_k: "[1..k] = [1..k - 1] @ [k]"
    using upto_rec2 [OF assms(1)] .
  have stop: "scrape_listings fs' search fetch n = scrape_listings fs' search fetch k"
    if "k \<le> n" for n fs'
    unfolding scrape_listings_def split [OF that] upto_k
    by (rule page_loop_break [OF brk])
  have same: "all_listings (scrape_listings fs' search fetch k) =
        all_listings (scrape_listings fs' search fetch (k - 1))" for fs'
    unfolding scrape_listings_def upto_k
    by (rule page_loop_break_listings [OF brk])
  have none_later: "SearchPage q \<notin> set (events (scrape_listings fs search fetch max_pages))"
    if "k < q" for q
  proof
    assume "SearchPage q \<in> set (events (scrape_listings fs search fetch max_pages))"
    then have "SearchPage q \<in> set (events (scrape_listings fs search fetch k))"
      by (simp add: stop [OF assms(2)])
    then have "q \<in> set [1..k]"
      using page_loop_events [of fs search fetch "[1..k]" "\<lparr>all_listings = [], events = []\<rparr>"]
      by (auto simp add: scrape_listings_def)
    with that show False by simp
  qed
  have "snd (main search fetch now) =
          save_results (all_listings (scrape_listings main_filters search fetch (k - 1))) now"
    if "k \<le> 10"
    by (simp add: main_def Let_def stop [OF that] same)
  with stop [OF assms(2)] same none_later show ?thesis by blast
qed

theorem search_fault_aborts_run_witness:
  "(1::int) \<le> 2 \<and> (2::int) \<le> 5 \<and> ex_search_fault 2 = Inl RequestException \<and>
   all_listings (scrape_listings main_filters ex_search_fault ex_fetch 5) =
     [ex_listing_a, ex_listing_b, ex_listing_c] \<and>
   SearchPage 3 \<notin> set (events (scrape_listings main_filters ex_search_fault ex_fetch 5)) \<and>
   snd (main ex_search_fault ex_fetch ex_now) =
     Some (''scraping_results/miami_listings_20240102_030405.csv'',
           [ex_listing_a, ex_listing_b, ex_listing_c])"
proof -
  have fault: "ex_search_fault 2 = Inl RequestException"
    by (simp add: ex_search_fault_def)
  have name: "save_results [ex_listing_a, ex_listing_b, ex_listing_c] ex_now =
      Some (''scraping_results/miami_listings_20240102_030405.csv'',
            [ex_listing_a, ex_listing_b, ex_listing_c])"
    by (simp add: save_results_def results_dir_def strftime_def digits4_def digits2_def
          digit_char_def ex_now_def)
  have le: "(1::int) \<le> 2" "(2::int) \<le> 5" by simp_all
  note fact = search_fault_aborts_run [where k = 2 and max_pages = 5 and search = ex_search_fault
        and e = RequestException and fs = main_filters and fetch = ex_fetch and now = ex_now,
      OF le fault]
  from fact have "all_listings (scrape_listings main_filters ex_search_fault ex_fetch 5) =
      [ex_listing_a, ex_listing_b, ex_listing_c]"
    by (simp add: ex_run_one_page)
  moreover from fact
  have "SearchPage 3 \<notin> set (events (scrape_listings main_filters ex_search_fault ex_fetch 5))"
    by (elim conjE allE [of _ 3]) simp
  moreover from fact have "snd (main ex_search_fault ex_fetch ex_now) =
      Some (''scraping_results/miami_listings_20240102_030405.csv'',
            [ex_listing_a, ex_listing_b, ex_listing_c])"
    by (simp add: ex_run_one_page name)
  ultimately show ?thesis
    using fault by simp
qed

text \<open>
  C7. When \<open>scrape_listing\<close> fails on one link \<open>u\<close> of a page (an exception in its
  \<open>try\<close>: the fetch, the extraction or a filter check), it returns \<open>None\<close>, every link of
  the page is still visited, the links before and after \<open>u\<close> give what they give without
  it, and the loop goes on with the remaining pages.
\<close>

theorem listing_failure_isolated:
  assumes "scrape_listing_try fs fetch u = Inl e"
    and "page_urls search page = Inr (us1 @ u # us2)"
  shows "scrape_listing fs fetch u = None \<and>
         page_loop fs search fetch (page # pages) st =
           page_loop fs search fetch pages
             \<lparr>all_listings = all_listings st @ List.map_filter (scrape_listing fs fetch) us1 @
                              List.map_filter (scrape_listing fs fetch) us2,
              events = events st @ SearchPage page # map ListingPage (us1 @ u # us2)\<rparr>"
proof -
  have skip: "scrape_listing fs fetch u = None"
    using assms(1) by (simp add: scrape_listing_def)
  then show ?thesis
    using assms(2) by (simp add: listing_loop_eq log_event_def map_filter_append)
qed

theorem listing_failure_isolated_witness:
  "scrape_listing_try main_filters ex_fetch ''/x'' = Inl RequestException \<and>
   page_urls ex_search 1 = Inr ([''/a''] @ ''/x'' # [''/b'']) \<and>
   scrape_listing main_filters ex_fetch ''/x'' = None \<and>
   page_loop main_filters ex_search ex_fetch [1, 2] ex_start =
     \<lparr>all_listings = [ex_listing_a, ex_listing_b, ex_listing_c],
      events = [SearchPage 1, ListingPage ''/a'', ListingPage ''/x'', ListingPage ''/b'',
                SearchPage 2, ListingPage ''/d'', ListingPage ''/e'', ListingPage ''/c'']\<rparr>"
proof -
  have raised: "scrape_listing_try main_filters ex_fetch ''/x'' = Inl RequestException"
    by (simp add: scrape_listing_try_def ex_fetch_simps)
  have urls: "page_urls ex_search 1 = Inr ([''/a''] @ ''/x'' # [''/b''])"
    by (simp add: ex_page_urls ex_links_def)
  have rest: "page_urls ex_search 2 = Inr [''/d'', ''/e'', ''/c'']"
    by (simp add: ex_page_urls ex_links_def)
  from listing_failure_isolated [where fs = main_filters and fetch = ex_fetch and u = "''/x''"
        and e = RequestException and search = ex_search and page = 1
        and ?us1.0 = "[''/a'']" and ?us2.0 = "[''/b'']" and pages = "[2]" and st = ex_start,
      OF raised urls]
  show ?thesis
    using raised urls rest
    by (simp add: ex_start_def ex_scrape_main listing_loop_eq log_event_def)
qed

text \<open>
  C8. When each of the pages 1 to \<open>max_pages\<close> is fetched and yields the links
  \<open>links page\<close>, the result is the sequence of all links, page by page and link by link,
  restricted to the links whose listing is accepted.
\<close>

theorem result_order_is_discovery_order:
  assumes "\<forall>page \<in> set [1..max_pages]. page_urls search page = Inr (links page)"
  shows "all_listings (scrape_listings fs search fetch max_pages) =
         List.map_filter (scrape_listing fs fetch) (concat (map links [1..max_pages]))"
  using page_loop_listings_ok [OF assms] by (simp add: scrape_listings_def)

theorem result_order_is_discovery_order_witness:
  "page_urls ex_search 1 = Inr (ex_links 1) \<and> page_urls ex_search 2 = Inr (ex_links 2) \<and>
   all_listings (scrape_listings main_filters ex_search ex_fetch 2) =
     [ex_listing_a, ex_listing_b, ex_listing_c]"
proof -
  have "\<forall>page \<in> set [1..2]. page_urls ex_search page = Inr (ex_links page)"
    by (simp add: ex_page_urls)
  from result_order_is_discovery_order [where max_pages = 2 and search = ex_search and links = ex_links
        and fs = main_filters and fetch = ex_fetch, OF this]
  show ?thesis
    by (simp add: ex_page_urls ex_links_def ex_scrape_main upto_1_2)
qed

text \<open>
  C10. Every listing in the result of \<open>scrape_listings\<close> satisfies the active filters: its
  ZIP code is in the value of \<open>zip_codes\<close> whenever that value, of any kind, is truthy
  (spelled out for a non-empty set and for a non-empty list, tuple or keys of a dict), and
  its two flags are true when the filters ask for them.
\<close>

theorem result_set_satisfies_filters:
  assumes "ld \<in> set (all_listings (scrape_listings fs search fetch max_pages))"
  shows "(\<forall>z. fs ''zip_codes'' = Some z \<and> truthy z \<longrightarrow> py_in (zip_code ld) z = Inr True) \<and>
         (\<forall>S. fs ''zip_codes'' = Some (VSet S) \<and> S \<noteq> {||} \<longrightarrow> SStr (zip_code ld) |\<in>| S) \<and>
         (\<forall>xs. (fs ''zip_codes'' = Some (VList xs) \<or> fs ''zip_codes'' = Some (VTuple xs) \<or>
                fs ''zip_codes'' = Some (VDictKeys xs)) \<and> xs \<noteq> [] \<longrightarrow>
               SStr (zip_code ld) \<in> set xs) \<and>
         (\<forall>w. fs ''wheelchair_accessible'' = Some w \<and> truthy w \<longrightarrow> wheelchair_accessible ld) \<and>
         (\<forall>s. fs ''section_8_accepted'' = Some s \<and> truthy s \<longrightarrow> section_8_accepted ld)"
proof -
  have "ld \<in> set (all_listings
           (page_loop fs search fetch [1..max_pages] \<lparr>all_listings = [], events = []\<rparr>))"
    using assms by (simp add: scrape_listings_def)
  from in_page_loop_listings [OF this]
  obtain u where "scrape_listing fs fetch u = Some ld"
    by auto
  from scrape_listing_SomeD [OF this] obtain doc where
    doc: "flags_reject fs doc = Inr False" "listing_data doc u = Inr ld"
      "zip_reject fs ld = Inr False"
    by blast
  have member: "py_in (zip_code ld) z = Inr True"
    if "fs ''zip_codes'' = Some z" "truthy z" for z
    using zip_reject_FalseD [OF doc(3) that] .
  have in_set: "SStr (zip_code ld) |\<in>| S" if "fs ''zip_codes'' = Some (VSet S)" "S \<noteq> {||}" for S
    using member [OF that(1)] that(2) by simp
  have in_list: "SStr (zip_code ld) \<in> set xs"
    if "fs ''zip_codes'' = Some (VList xs) \<or> fs ''zip_codes'' = Some (VTuple xs) \<or>
        fs ''zip_codes'' = Some (VDictKeys xs)" "xs \<noteq> []" for xs
    using that(1)
  proof (elim disjE)
    assume v: "fs ''zip_codes'' = Some (VList xs)"
    from member [OF v] that(2) show ?thesis by simp
  next
    assume v: "fs ''zip_codes'' = Some (VTuple xs)"
    from member [OF v] that(2) show ?thesis by simp
  next
    assume v: "fs ''zip_codes'' = Some (VDictKeys xs)"
    from member [OF v] that(2) show ?thesis by simp
  qed
  have wheelchair: "wheelchair_accessible ld"
    if "fs ''wheelchair_accessible'' = Some w" "truthy w" for w
    using flags_reject_FalseD(1) [OF doc(1) that] listing_data_fields(2) [OF doc(2)] by simp
  have section8: "section_8_accepted ld"
    if "fs ''section_8_accepted'' = Some s" "truthy s" for s
    using flags_reject_FalseD(2) [OF doc(1) that] listing_data_fields(3) [OF doc(2)] by simp
  from member in_set in_list wheelchair section8 show ?thesis by blast
qed

theorem result_set_satisfies_filters_witness:
  "ex_listing_b \<in> set (all_listings (scrape_listings ex_strict_filters ex_search ex_fetch 2)) \<and>
   ex_strict_filters ''zip_codes'' = Some (VSet {|SStr ''33131'', SStr ''33125''|}) \<and>
   SStr (zip_code ex_listing_b) |\<in>| {|SStr ''33131'', SStr ''33125''|} \<and>
   ex_strict_filters ''wheelchair_accessible'' = Some (VBool True) \<and>
   wheelchair_accessible ex_listing_b \<and>
   ex_strict_filters ''section_8_accepted'' = Some (VInt 1) \<and>
   section_8_accepted ex_listing_b \<and>
   ex_listing_c \<in> set (all_listings (scrape_listings main_filters ex_search ex_fetch 2)) \<and>
   main_filters ''zip_codes'' =
     Some (VDictKeys (map SStr [''33125'', ''33127'', ''33128'', ''33130'', ''33131'', ''33132'',
                                ''33133'', ''33134'', ''33135'', ''33136'', ''33137'', ''33138''])) \<and>
   SStr (zip_code ex_listing_c) \<in>
     set (map SStr [''33125'', ''33127'', ''33128'', ''33130'', ''33131'', ''33132'',
                    ''33133'', ''33134'', ''33135'', ''33136'', ''33137'', ''33138'']) \<and>
   wheelchair_accessible ex_listing_c \<and> section_8_accepted ex_listing_c"
proof -
  have mem: "ex_listing_b \<in>
      set (all_listings (scrape_listings ex_strict_filters ex_search ex_fetch 2))"
    by (simp add: ex_run_strict)
  have mem_main: "ex_listing_c \<in>
      set (all_listings (scrape_listings main_filters ex_search ex_fetch 2))"
    by (simp add: ex_run_main)
  from result_set_satisfies_filters [where ld = ex_listing_b and fs = ex_strict_filters and search = ex_search
        and fetch = ex_fetch and max_pages = 2, OF mem] ex_strict_filters_simps
  have strict: "SStr (zip_code ex_listing_b) |\<in>| {|SStr ''33131'', SStr ''33125''|} \<and>
        wheelchair_accessible ex_listing_b \<and> section_8_accepted ex_listing_b"
    by simp
  from result_set_satisfies_filters [where ld = ex_listing_c and fs = main_filters and search = ex_search
        and fetch = ex_fetch and max_pages = 2, OF mem_main] main_filters_simps
  have "SStr (zip_code ex_listing_c) \<in>
          set (map SStr [''33125'', ''33127'', ''33128'', ''33130'', ''33131'', ''33132'',
                         ''33133'', ''33134'', ''33135'', ''33136'', ''33137'', ''33138'']) \<and>
        wheelchair_accessible ex_listing_c \<and> section_8_accepted ex_listing_c"
    by (elim conjE allE [of _ "VBool True"] allE [of _ "map SStr [''33125'', ''33127'', ''33128'',
        ''33130'', ''33131'', ''33132'', ''33133'', ''33134'', ''33135'', ''33136'', ''33137'',
        ''33138'']"]) simp
  with strict mem mem_main ex_strict_filters_simps main_filters_simps(1) show ?thesis
    by simp
qed

subsection \<open>Setting the filters: the ZIP codes\<close>

text \<open>
  C4 (as the code has it). A call of \<open>set_filters\<close> with a value for \<open>zip_codes\<close> stores the
  set of the strings \<open>str(x)\<close> of its elements when the value is a list or a set. Any
  other value (a tuple, the keys of a dict, a string) is stored as it is, not as a set.
\<close>

theorem set_filters_zip_codes_stored:
  assumes "distinct (map fst kwargs)" and "(''zip_codes'', v) \<in> set kwargs"
    and "fs ''zip_codes'' \<noteq> None"
  shows "(\<forall>xs. v = VList xs \<longrightarrow>
            set_filters fs kwargs ''zip_codes'' =
              Some (VSet (fset_of_list (map (\<lambda>x. SStr (str x)) xs)))) \<and>
         (\<forall>S. v = VSet S \<longrightarrow>
            set_filters fs kwargs ''zip_codes'' = Some (VSet ((\<lambda>x. SStr (str x)) |`| S))) \<and>
         ((\<forall>xs. v \<noteq> VList xs) \<and> (\<forall>S. v \<noteq> VSet S) \<longrightarrow>
            set_filters fs kwargs ''zip_codes'' = Some v)"
proof -
  have "is_list_or_set v \<longleftrightarrow> (\<exists>xs. v = VList xs) \<or> (\<exists>S. v = VSet S)"
    by (cases v) simp_all
  then show ?thesis
    using set_filters_at_zip_codes [where fs = fs, OF assms] by auto
qed

theorem set_filters_zip_codes_stored_witness:
  "distinct (map fst [(''zip_codes'', VList [SStr ''33131'', SInt 33125])]) \<and>
   init_filters ''zip_codes'' \<noteq> None \<and>
   set_filters init_filters [(''zip_codes'', VList [SStr ''33131'', SInt 33125])] ''zip_codes'' =
     Some (VSet {|SStr ''33131'', SStr ''33125''|}) \<and>
   set_filters init_filters [(''zip_codes'', VSet {|SInt 33125|})] ''zip_codes'' =
     Some (VSet {|SStr ''33125''|}) \<and>
   set_filters init_filters [(''zip_codes'', VTuple [SInt 33125])] ''zip_codes'' =
     Some (VTuple [SInt 33125])"
proof -
  have key: "init_filters ''zip_codes'' \<noteq> None"
    by (simp add: init_filters_def)
  have d: "distinct (map fst [(''zip_codes'', v)])" for v :: pyval
    by simp
  have m: "(''zip_codes'', v) \<in> set [(''zip_codes'', v)]" for v :: pyval
    by simp
  from set_filters_zip_codes_stored [where fs = init_filters and kwargs = "[(''zip_codes'', v)]" for v, OF d m key, of "VList [SStr ''33131'', SInt 33125]"]
  have "set_filters init_filters [(''zip_codes'', VList [SStr ''33131'', SInt 33125])]
          ''zip_codes'' = Some (VSet {|SStr ''33131'', SStr ''33125''|})"
    by (simp add: str_33125)
  moreover
  from set_filters_zip_codes_stored [where fs = init_filters and kwargs = "[(''zip_codes'', v)]" for v, OF d m key, of "VSet {|SInt 33125|}"]
  have "set_filters init_filters [(''zip_codes'', VSet {|SInt 33125|})] ''zip_codes'' =
          Some (VSet {|SStr ''33125''|})"
    by (simp add: str_33125)
  moreover
  from set_filters_zip_codes_stored [where fs = init_filters and kwargs = "[(''zip_codes'', v)]" for v, OF d m key, of "VTuple [SInt 33125]"]
  have "set_filters init_filters [(''zip_codes'', VTuple [SInt 33125])] ''zip_codes'' =
          Some (VTuple [SInt 33125])"
    by simp
  ultimately show ?thesis using key by simp
qed

text \<open>
  The call in \<open>main\<close> passes the keys of \<open>MIAMI_ZIP_CODES\<close>: the filter then holds these
  keys, not a set; a tuple of integers is stored with its integers.
\<close>

theorem zip_codes_not_normalized_counterexample:
  "main_filters ''zip_codes'' =
     Some (VDictKeys [SStr ''33125'', SStr ''33127'', SStr ''33128'', SStr ''33130'',
                      SStr ''33131'', SStr ''33132'', SStr ''33133'', SStr ''33134'',
                      SStr ''33135'', SStr ''33136'', SStr ''33137'', SStr ''33138'']) \<and>
   set_filters init_filters [(''zip_codes'', VTuple [SInt 33125])] ''zip_codes'' =
     Some (VTuple [SInt 33125])"
  by (simp add: main_filters_def main_kwargs_def init_filters_def MIAMI_ZIP_CODES_def)

subsection \<open>Missing fields\<close>

text \<open>
  C5 (as the code has it). When the title, the price, the address or the description has
  no match in the page, \<open>scrape_listing\<close> returns no listing (the extraction raises
  \<open>AttributeError\<close> when the flag checks let the page through), and the loop goes on with
  the next link. Without a description both classifiers return false and raise nothing,
  but the page is not extracted.
\<close>

theorem missing_field_skips_listing:
  assumes "fetch u = Inr doc"
    and "soup_find doc ''h1'' ''listing-title'' = None \<or>
         soup_find doc ''div'' ''price'' = None \<or>
         soup_find doc ''div'' ''address'' = None \<or>
         soup_find doc ''div'' ''description'' = None"
  shows "scrape_listing fs fetch u = None \<and>
         (flags_reject fs doc = Inr False \<longrightarrow>
            scrape_listing_try fs fetch u = Inl AttributeError) \<and>
         listing_loop fs fetch (u # us) st =
           listing_loop fs fetch us (log_event (ListingPage u) st) \<and>
         (soup_find doc ''div'' ''description'' = None \<longrightarrow>
            \<not> is_wheelchair_accessible doc \<and> \<not> accepts_section_8 doc)"
proof -
  have data: "listing_data doc u = Inl AttributeError"
    by (rule listing_data_missing) (use assms(2) in \<open>elim disjE\<close>, simp_all)
  have raised: "scrape_listing_try fs fetch u = Inl AttributeError"
    if "flags_reject fs doc = Inr False"
    using that assms(1) data by (simp add: scrape_listing_try_def)
  have none: "scrape_listing fs fetch u = None"
  proof (cases "flags_reject fs doc")
    case (Inl e)
    then show ?thesis
      using assms(1) by (simp add: scrape_listing_def scrape_listing_try_def)
  next
    case (Inr rejected)
    then show ?thesis
      using assms(1) data
      by (cases rejected) (simp_all add: scrape_listing_def scrape_listing_try_def)
  qed
  have "\<not> is_wheelchair_accessible doc \<and> \<not> accepts_section_8 doc"
    if "soup_find doc ''div'' ''description'' = None"
    using that by (simp add: is_wheelchair_accessible_def accepts_section_8_def)
  with none raised show ?thesis by simp
qed

theorem missing_field_skips_listing_witness:
  "ex_fetch ''/e'' = Inr ex_doc_e \<and> soup_find ex_doc_e ''div'' ''description'' = None \<and>
   flags_reject init_filters ex_doc_e = Inr False \<and>
   scrape_listing init_filters ex_fetch ''/e'' = None \<and>
   \<not> is_wheelchair_accessible ex_doc_e \<and> \<not> accepts_section_8 ex_doc_e \<and>
   listing_loop init_filters ex_fetch [''/e'', ''/a''] ex_start =
     \<lparr>all_listings = [ex_listing_a], events = [ListingPage ''/e'', ListingPage ''/a'']\<rparr>"
proof -
  have missing: "soup_find ex_doc_e ''h1'' ''listing-title'' = None \<or>
      soup_find ex_doc_e ''div'' ''price'' = None \<or>
      soup_find ex_doc_e ''div'' ''address'' = None \<or>
      soup_find ex_doc_e ''div'' ''description'' = None"
    by (simp add: ex_field_texts_e)
  from missing_field_skips_listing [where fetch = ex_fetch and u = "''/e''" and doc = ex_doc_e
        and fs = init_filters and us = "[''/a'']" and st = ex_start,
      OF ex_fetch_simps(5) missing]
  show ?thesis
    using ex_fetch_simps(5) ex_field_texts_e(7) ex_scrape_init
    by (simp add: ex_start_def log_event_def)
qed

text \<open>
  A page that has every field but the description, under the initial filters: the
  classifiers return false, and the page is skipped.
\<close>

theorem missing_description_counterexample:
  "ex_fetch ''/e'' = Inr ex_doc_e \<and>
   field_text ex_doc_e ''h1'' ''listing-title'' = Inr ''Sunny flat'' \<and>
   field_text ex_doc_e ''div'' ''price'' = Inr ''$1,500'' \<and>
   field_text ex_doc_e ''span'' ''bedrooms'' = Inr ''2'' \<and>
   field_text ex_doc_e ''span'' ''bathrooms'' = Inr ''1'' \<and>
   field_text ex_doc_e ''span'' ''sqft'' = Inr ''800'' \<and>
   field_text ex_doc_e ''div'' ''address'' = Inr ''5 Brickell Ave, Miami, FL 33131'' \<and>
   soup_find ex_doc_e ''div'' ''description'' = None \<and>
   is_wheelchair_accessible ex_doc_e = False \<and>
   accepts_section_8 ex_doc_e = False \<and>
   scrape_listing_try init_filters ex_fetch ''/e'' = Inl AttributeError \<and>
   scrape_listing init_filters ex_fetch ''/e'' = None"
  using ex_fetch_simps(5) ex_field_texts_e ex_accessible(5) ex_section_8(5) ex_scrape_init(3)
  by (simp add: scrape_listing_def)

subsection \<open>The name of the file\<close>

text \<open>
  C9 (as the code has it). Two calls of \<open>save_results\<close> with listings to save write to the
  same file name exactly when their clock readings agree from the year down to the
  second: the name holds the time to the second and nothing else that varies.
\<close>

theorem file_name_collision_iff:
  assumes "valid_datetime s" and "valid_datetime t" and "ls1 \<noteq> []" and "ls2 \<noteq> []"
  shows "map_option fst (save_results ls1 s) = map_option fst (save_results ls2 t) \<longleftrightarrow>
           year s = year t \<and> month s = month t \<and> day s = day t \<and>
           hour s = hour t \<and> minute s = minute t \<and> second s = second t"
  using assms(3,4) strftime_eq_iff [OF assms(1,2)]
  by (simp add: save_results_def)

theorem file_name_collision_iff_witness:
  "valid_datetime ex_now \<and> valid_datetime ex_next \<and> [ex_listing_a] \<noteq> [] \<and>
   map_option fst (save_results [ex_listing_a] ex_now) \<noteq>
   map_option fst (save_results [ex_listing_a] ex_next)"
proof -
  have ne: "[ex_listing_a] \<noteq> []" by simp
  from file_name_collision_iff [OF ex_valid(1) ex_valid(3) ne ne]
  show ?thesis
    using ex_valid by (simp add: ex_now_def ex_next_def)
qed

text \<open>Two different clock readings in the same second give the same file name.\<close>

theorem same_second_collision_counterexample:
  "ex_now \<noteq> ex_later \<and>
   save_results [ex_listing_a] ex_now =
     Some (''scraping_results/miami_listings_20240102_030405.csv'', [ex_listing_a]) \<and>
   save_results [ex_listing_b] ex_later =
     Some (''scraping_results/miami_listings_20240102_030405.csv'', [ex_listing_b])"
  by (simp add: save_results_def results_dir_def strftime_def digits4_def digits2_def
        digit_char_def ex_now_def ex_later_def)

end
